theory Spec2Isabelle
  imports Main
begin

section \<open>Package sqlast: nodes, the generation context, equality\<close>

text \<open>
  The sources at hand declare two node types, \<open>AstNumber\<close> and \<open>equality\<close>, and name a
  third, \<open>AstBoolean\<close> (the type switch of \<open>equality.EqualsSQLString\<close>, the constructor
  call \<open>sqlast.Bool\<close>). Every other implementation of the \<open>Node\<close> interface (strings,
  arrays, member-of, and/or, column references) is declared in files that are not at hand:
  such a node is \<open>Other x\<close>, and whatever its methods do is a parameter (\<open>sqlast\<close> below).
\<close>

type_synonym RegoSource = string

text \<open>Go's dynamic types, as \<open>%T\<close> prints them and as a type switch tells them apart.\<close>

datatype gotype = T_AstBoolean | T_AstNumber | T_equality | T_other string

datatype error =
    UnsupportedEquality gotype string gotype
      \<comment> \<open>\<open>unsupported equality: %T %s %T\<close>\<close>
  | QueryError string error
      \<comment> \<open>\<open>query %s: %w\<close>\<close>
  | QueryNotBoolean string
      \<comment> \<open>\<open>query %s: not a boolean expression\<close>\<close>
  | ExpressionError string error
      \<comment> \<open>\<open>expression %s: %w\<close>\<close>
  | CallError error
      \<comment> \<open>\<open>call: %w\<close>\<close>
  | CallNotBoolean string
      \<comment> \<open>\<open>call %q: not a boolean expression\<close>\<close>
  | ConvertTermError string error
      \<comment> \<open>\<open>convert term %s: %w\<close>\<close>
  | ConvertTermNotBoolean string
      \<comment> \<open>\<open>convert term %s is not a boolean: %w\<close>, the wrapped error being nil\<close>
  | ExpressionNotSupported string
      \<comment> \<open>\<open>expression %s not supported\<close>\<close>
  | ArgumentsError error
      \<comment> \<open>\<open>arguments: %w\<close>\<close>
  | OperatorNotSupported string
      \<comment> \<open>\<open>operator %s not supported\<close>\<close>
  | ExpectedTerms nat nat
      \<comment> \<open>\<open>expected %d terms, got %d\<close>\<close>
  | TermError error
      \<comment> \<open>\<open>term: %w\<close>\<close>
  | VarNotSupported
      \<comment> \<open>\<open>var not yet supported\<close>\<close>
  | EmptyRefNotSupported
      \<comment> \<open>\<open>empty ref not supported\<close>\<close>
  | NoVariableConverter
      \<comment> \<open>\<open>no variable converter provided to handle variables\<close>\<close>
  | VariableCannotBeConverted string
      \<comment> \<open>\<open>variable %q cannot be converted\<close>\<close>
  | ArrayElementError nat string error
      \<comment> \<open>\<open>array element %d in %q: %w\<close>\<close>
  | ObjectNotSupported
      \<comment> \<open>\<open>object not yet supported\<close>\<close>
  | ValueNotSupported string
      \<comment> \<open>\<open>%T not yet supported\<close>\<close>
  | ExternalError string
      \<comment> \<open>an error made by code that is not at hand\<close>

datatype 'x node =
    AstBoolean bool
  | AstNumber (Source: RegoSource) (Value: string)
  | equality (Left: "'x node") (Right: "'x node") (Not: bool)
  | Other 'x

text \<open>
  Modelled from the spec: the generation context "accumulates a list of generation
  errors"; \<open>SQLGenerator\<close> and its \<open>AddError\<close> are declared in a file that is not at
  hand.
\<close>

record SQLGenerator =
  errors :: "error list"

definition AddError :: "SQLGenerator \<Rightarrow> error \<Rightarrow> SQLGenerator" where
  "AddError cfg e = cfg\<lparr>errors := errors cfg @ [e]\<rparr>"

text \<open>
  The part of package sqlast that is not at hand, as parameters. The constructors return
  nodes; the methods of \<open>AstBoolean\<close> and of the \<open>Other\<close> nodes return their text and
  the errors they append to the context (the spec: rendering is pure but for appending to
  the context's error list).
\<close>

record 'x sqlast =
  sqlast_String :: "string \<Rightarrow> 'x node"
  sqlast_Array :: "RegoSource \<Rightarrow> 'x node list \<Rightarrow> error + 'x node"
  sqlast_MemberOf :: "'x node \<Rightarrow> 'x node \<Rightarrow> 'x node"
  sqlast_And :: "RegoSource \<Rightarrow> 'x node list \<Rightarrow> 'x node"
  sqlast_Or :: "RegoSource \<Rightarrow> 'x node list \<Rightarrow> 'x node"
  typeName :: "'x \<Rightarrow> string"
  otherIsBooleanNode :: "string \<Rightarrow> bool"
  otherUseAs :: "'x node \<Rightarrow> gotype"
  otherSupportsEquality :: "'x node \<Rightarrow> bool"
  otherEqualsSQLString :: "'x node \<Rightarrow> bool \<Rightarrow> 'x node \<Rightarrow> (error + string) \<times> error list"
  otherSQLString :: "'x node \<Rightarrow> string \<times> error list"

text \<open>Modelled from the spec: \<open>sqlast.Bool\<close> makes the boolean literal node.\<close>

definition Bool :: "bool \<Rightarrow> 'x node" where
  "Bool v = AstBoolean v"

definition Number :: "RegoSource \<Rightarrow> string \<Rightarrow> 'x node" where
  "Number source v = AstNumber source v"

definition Equality :: "bool \<Rightarrow> 'x node \<Rightarrow> 'x node \<Rightarrow> 'x node" where
  "Equality notEquals a b = equality a b notEquals"

text \<open>The dynamic type of a node (\<open>%T\<close>).\<close>

fun typeOf :: "'x sqlast \<Rightarrow> 'x node \<Rightarrow> gotype" where
  "typeOf lib (AstBoolean v) = T_AstBoolean"
| "typeOf lib (AstNumber s v) = T_AstNumber"
| "typeOf lib (equality l r n) = T_equality"
| "typeOf lib (Other x) = T_other (typeName lib x)"

text \<open>
  Which types implement \<open>BooleanNode\<close>: \<open>equality\<close> does (\<open>var _ BooleanNode = equality{}\<close>),
  \<open>AstBoolean\<close> does (\<open>ConvertRegoAst\<close> returns \<open>sqlast.Bool(false)\<close> as one),
  \<open>AstNumber\<close> has no \<open>IsBooleanNode\<close> method.
\<close>

fun implementsBooleanNode :: "'x sqlast \<Rightarrow> gotype \<Rightarrow> bool" where
  "implementsBooleanNode lib T_AstBoolean = True"
| "implementsBooleanNode lib T_AstNumber = False"
| "implementsBooleanNode lib T_equality = True"
| "implementsBooleanNode lib (T_other name) = otherIsBooleanNode lib name"

text \<open>The type assertion \<open>n.(sqlast.BooleanNode)\<close>.\<close>

definition IsBooleanNode :: "'x sqlast \<Rightarrow> 'x node \<Rightarrow> bool" where
  "IsBooleanNode lib n = implementsBooleanNode lib (typeOf lib n)"

text \<open>
  \<open>UseAs\<close> returns a zero value (\<open>AstNumber{}\<close>, \<open>equality{}\<close>) that the callers only
  switch on by type: the model returns that type.
\<close>

fun UseAs :: "'x sqlast \<Rightarrow> 'x node \<Rightarrow> gotype" where
  "UseAs lib (AstNumber s v) = T_AstNumber"
| "UseAs lib (equality l r n) = T_equality"
| "UseAs lib n = otherUseAs lib n"

text \<open>The type assertion \<open>n.(SupportsEquality)\<close>.\<close>

fun SupportsEquality :: "'x sqlast \<Rightarrow> 'x node \<Rightarrow> bool" where
  "SupportsEquality lib (AstNumber s v) = True"
| "SupportsEquality lib (equality l r n) = True"
| "SupportsEquality lib n = otherSupportsEquality lib n"

definition equalsOp :: "bool \<Rightarrow> string" where
  "equalsOp not' = (if not' then ''!='' else ''='')"

text \<open>The appending of a list of errors to the context, for the methods that are parameters.\<close>

definition addErrors :: "SQLGenerator \<Rightarrow> error list \<Rightarrow> SQLGenerator" where
  "addErrors cfg es = cfg\<lparr>errors := errors cfg @ es\<rparr>"

text \<open>
  \<open>SQLString\<close>, \<open>EqualsSQLString\<close> and \<open>basicSQLEquality\<close>, by dynamic dispatch on the
  node. The context is passed by pointer in the source: here it goes in and comes out.
  In \<open>equality.SQLString\<close> each of the two attempts gives \<open>Some v\<close> when the operand
  implements \<open>SupportsEquality\<close> and its \<open>EqualsSQLString\<close> returns \<open>v\<close> with a nil
  error, and \<open>None\<close> otherwise.
\<close>

function SQLString :: "'x sqlast \<Rightarrow> 'x node \<Rightarrow> SQLGenerator \<Rightarrow> string \<times> SQLGenerator"
  and EqualsSQLString ::
    "'x sqlast \<Rightarrow> 'x node \<Rightarrow> SQLGenerator \<Rightarrow> bool \<Rightarrow> 'x node \<Rightarrow> (error + string) \<times> SQLGenerator"
  and basicSQLEquality ::
    "'x sqlast \<Rightarrow> SQLGenerator \<Rightarrow> bool \<Rightarrow> 'x node \<Rightarrow> 'x node \<Rightarrow> string \<times> SQLGenerator"
where
  "SQLString lib (AstNumber s v) cfg = (v, cfg)"
| "SQLString lib (equality l r n) cfg =
     (case (if SupportsEquality lib l
            then (case EqualsSQLString lib l cfg n r of
                    (Inr v, c) \<Rightarrow> (Some v, c)
                  | (Inl err, c) \<Rightarrow> (None, c))
            else (None, cfg)) of
        (Some v, cfg1) \<Rightarrow> (v, cfg1)
      | (None, cfg1) \<Rightarrow>
          (case (if SupportsEquality lib r
                 then (case EqualsSQLString lib r cfg1 n l of
                         (Inr v, c) \<Rightarrow> (Some v, c)
                       | (Inl err, c) \<Rightarrow> (None, c))
                 else (None, cfg1)) of
             (Some v, cfg2) \<Rightarrow> (v, cfg2)
           | (None, cfg2) \<Rightarrow>
               (''EqualityError'',
                AddError cfg2
                  (UnsupportedEquality (typeOf lib l) (equalsOp n) (typeOf lib r)))))"
| "SQLString lib (AstBoolean b) cfg =
     (case otherSQLString lib (AstBoolean b) of (v, es) \<Rightarrow> (v, addErrors cfg es))"
| "SQLString lib (Other x) cfg =
     (case otherSQLString lib (Other x) of (v, es) \<Rightarrow> (v, addErrors cfg es))"
| "EqualsSQLString lib (AstNumber s v) cfg not' other =
     (if UseAs lib other = T_AstNumber
      then (case basicSQLEquality lib cfg not' (AstNumber s v) other of
              (t, cfg') \<Rightarrow> (Inr t, cfg'))
      else (Inl (UnsupportedEquality T_AstNumber (equalsOp not') (typeOf lib other)), cfg))"
| "EqualsSQLString lib (equality l r n) cfg not' other =
     (if UseAs lib other = T_AstBoolean
      then (case SQLString lib (equality l r n) cfg of
              (a, cfg1) \<Rightarrow>
                (case SQLString lib other cfg1 of
                   (b, cfg2) \<Rightarrow> (Inr (''('' @ a @ '') '' @ equalsOp not' @ '' '' @ b), cfg2)))
      else if implementsBooleanNode lib (UseAs lib other)
      then (case SQLString lib (equality l r n) cfg of
              (a, cfg1) \<Rightarrow>
                (case SQLString lib other cfg1 of
                   (b, cfg2) \<Rightarrow>
                     (Inr (''('' @ a @ '') '' @ equalsOp not' @ '' ('' @ b @ '')''), cfg2)))
      else (Inl (UnsupportedEquality T_equality (equalsOp not') (typeOf lib other)), cfg))"
| "EqualsSQLString lib (AstBoolean b) cfg not' other =
     (case otherEqualsSQLString lib (AstBoolean b) not' other of
        (res, es) \<Rightarrow> (res, addErrors cfg es))"
| "EqualsSQLString lib (Other x) cfg not' other =
     (case otherEqualsSQLString lib (Other x) not' other of
        (res, es) \<Rightarrow> (res, addErrors cfg es))"
| "basicSQLEquality lib cfg not' a b =
     (case SQLString lib a cfg of
        (x, cfg1) \<Rightarrow>
          (case SQLString lib b cfg1 of
             (y, cfg2) \<Rightarrow> (x @ '' '' @ equalsOp not' @ '' '' @ y, cfg2)))"
  by pat_completeness auto
termination
  by (relation "measure (\<lambda>a. case a of
         Inl (lib, n, cfg) \<Rightarrow> 3 * size n
       | Inr (Inl (lib, n, cfg, not', other)) \<Rightarrow> 3 * (size n + size other) + 2
       | Inr (Inr (lib, cfg, not', a, b)) \<Rightarrow> 3 * (size a + size b) + 1)") auto

section \<open>The policy engine's terms\<close>

text \<open>
  The residual queries are values of the policy engine's library (package \<open>ast\<close>), which is
  not part of this repository: a term is a value with a location, a call is the list of
  its terms (the operator first), an expression holds a call, a single term or something
  else. What the library computes (\<open>String()\<close>, the order of \<open>Compare\<close>) is a parameter.
\<close>

type_synonym Location = "(nat \<times> nat) option"

datatype ast_Term = Term (Value: ast_Value) (Location: Location)
  and ast_Value =
    ast_Null
  | ast_Boolean bool
  | ast_Number string
  | ast_String string
  | ast_Var string
  | ast_Ref "ast_Term list"
  | ast_Array "ast_Term list"
  | ast_Object "(ast_Term \<times> ast_Term) list"
  | ast_Set "ast_Term list"
  | ast_Call "ast_Term list"
  | ast_OtherValue string
      \<comment> \<open>any other value (a comprehension), with the name of its Go type\<close>

datatype ast_Terms = CallTerms "ast_Term list" | SingleTerm ast_Term | OtherTerms

record ast_Expr =
  Negated :: bool
  Terms :: ast_Terms

type_synonym ast_Body = "ast_Expr list"

record PartialQueries =
  Queries :: "ast_Body list"

record opa =
  ValueString :: "ast_Value \<Rightarrow> string"
  ExprString :: "ast_Expr \<Rightarrow> string"
  BodyString :: "ast_Body \<Rightarrow> string"
  Compare :: "ast_Term \<Rightarrow> ast_Term \<Rightarrow> int"

text \<open>\<open>Term.String()\<close> is the \<open>String()\<close> of the term's value.\<close>

definition TermString :: "opa \<Rightarrow> ast_Term \<Rightarrow> string" where
  "TermString ext t = ValueString ext (Value t)"

definition IsCall :: "ast_Expr \<Rightarrow> bool" where
  "IsCall e = (case Terms e of CallTerms ts \<Rightarrow> True | _ \<Rightarrow> False)"

text \<open>
  The library's \<open>Set.Sorted()\<close>: the set's elements in the order of \<open>Compare\<close>, as an
  array. A set is the list of its elements; each element is put in its place among those
  already ordered. Where \<open>Compare\<close> is a strict total order on the elements, as the
  library promises, the result is the one listing of the elements in that order, however
  it is computed (proved below).
\<close>

fun insertSorted :: "opa \<Rightarrow> ast_Term \<Rightarrow> ast_Term list \<Rightarrow> ast_Term list" where
  "insertSorted ext x [] = [x]"
| "insertSorted ext x (y # ys) =
     (if Compare ext x y < 0 then x # y # ys else y # insertSorted ext x ys)"

fun Sorted :: "opa \<Rightarrow> ast_Term list \<Rightarrow> ast_Term list" where
  "Sorted ext [] = []"
| "Sorted ext (x # xs) = insertSorted ext x (Sorted ext xs)"

text \<open>The size of a term, a set weighing more than the array of its elements.\<close>

fun termSize :: "ast_Term \<Rightarrow> nat"
  and valueSize :: "ast_Value \<Rightarrow> nat" where
  "termSize (Term v loc) = Suc (valueSize v)"
| "valueSize (ast_Ref ts) = Suc (sum_list (map termSize ts))"
| "valueSize (ast_Array ts) = Suc (sum_list (map termSize ts))"
| "valueSize (ast_Set ts) = Suc (Suc (sum_list (map termSize ts)))"
| "valueSize (ast_Call ts) = Suc (sum_list (map termSize ts))"
| "valueSize v = 0"

lemma termSize_pos: "0 < termSize t"
  by (cases t) simp

lemma sum_list_termSize_insertSorted:
  "sum_list (map termSize (insertSorted ext x ys)) = termSize x + sum_list (map termSize ys)"
  by (induction ys) auto

lemma sum_list_termSize_Sorted:
  "sum_list (map termSize (Sorted ext xs)) = sum_list (map termSize xs)"
  by (induction xs) (auto simp: sum_list_termSize_insertSorted)

section \<open>The compiler\<close>

text \<open>
  A function of the compiler returns a node and a nil error, or an error, or it panics
  (\<open>call[0]\<close> on a call of no terms): a panic goes through every caller unwrapped.
\<close>

datatype 'a result = Ok 'a | Err error | Panic

text \<open>
  \<open>VariableConverter\<close> is an interface value, nil when none was configured; its
  \<open>ConvertVariable\<close> returns a node and true, or false.
\<close>

record 'x ConvertConfig =
  VariableConverter :: "(ast_Term list \<Rightarrow> 'x node option) option"

text \<open>
  \<open>convertCall\<close>, \<open>convertTerms\<close> and \<open>convertTerm\<close>. The loop of \<open>convertTerms\<close> is
  \<open>convertTermsLoop\<close> (the terms left, the result so far); the loop of the array case of
  \<open>convertTerm\<close> is \<open>convertElems\<close> (the array, the index, the elements left, those
  converted so far).
\<close>

function convertCall ::
    "opa \<Rightarrow> 'x sqlast \<Rightarrow> 'x ConvertConfig \<Rightarrow> ast_Term list \<Rightarrow> 'x node result"
  and convertTerms ::
    "opa \<Rightarrow> 'x sqlast \<Rightarrow> 'x ConvertConfig \<Rightarrow> ast_Term list \<Rightarrow> nat \<Rightarrow> 'x node list result"
  and convertTermsLoop ::
    "opa \<Rightarrow> 'x sqlast \<Rightarrow> 'x ConvertConfig \<Rightarrow> ast_Term list \<Rightarrow> 'x node list
      \<Rightarrow> 'x node list result"
  and convertTerm ::
    "opa \<Rightarrow> 'x sqlast \<Rightarrow> 'x ConvertConfig \<Rightarrow> ast_Term \<Rightarrow> 'x node result"
  and convertElems ::
    "opa \<Rightarrow> 'x sqlast \<Rightarrow> 'x ConvertConfig \<Rightarrow> ast_Value \<Rightarrow> nat \<Rightarrow> ast_Term list
      \<Rightarrow> 'x node list \<Rightarrow> 'x node list result"
where
  "convertCall ext lib cfg [] = Panic"
| "convertCall ext lib cfg (op # args) =
     (if TermString ext op = ''neq'' \<or> TermString ext op = ''eq''
         \<or> TermString ext op = ''equals'' \<or> TermString ext op = ''equal''
      then (case convertTerms ext lib cfg args 2 of
              Err err \<Rightarrow> Err (ArgumentsError err)
            | Panic \<Rightarrow> Panic
            | Ok args' \<Rightarrow>
                (case args' of
                   a # b # rest \<Rightarrow>
                     Ok (Equality
                          (TermString ext op = ''neq'' \<or> TermString ext op = ''notequals''
                             \<or> TermString ext op = ''notequal'')
                          a b)
                 | _ \<Rightarrow> Panic))
      else if TermString ext op = ''internal.member_2''
      then (case convertTerms ext lib cfg args 2 of
              Err err \<Rightarrow> Err (ArgumentsError err)
            | Panic \<Rightarrow> Panic
            | Ok args' \<Rightarrow>
                (case args' of
                   a # b # rest \<Rightarrow> Ok (sqlast_MemberOf lib a b)
                 | _ \<Rightarrow> Panic))
      else Err (OperatorNotSupported (TermString ext op)))"
| "convertTerms ext lib cfg terms expected =
     (if length terms \<noteq> expected then Err (ExpectedTerms expected (length terms))
      else convertTermsLoop ext lib cfg terms [])"
| "convertTermsLoop ext lib cfg [] result = Ok result"
| "convertTermsLoop ext lib cfg (t # ts) result =
     (case convertTerm ext lib cfg t of
        Err err \<Rightarrow> Err (TermError err)
      | Panic \<Rightarrow> Panic
      | Ok term' \<Rightarrow> convertTermsLoop ext lib cfg ts (result @ [term']))"
| "convertTerm ext lib cfg (Term (ast_Var x) loc) = Err VarNotSupported"
| "convertTerm ext lib cfg (Term (ast_Ref t) loc) =
     (if length t = 0 then Err EmptyRefNotSupported
      else (case VariableConverter cfg of
              None \<Rightarrow> Err NoVariableConverter
            | Some ConvertVariable \<Rightarrow>
                (case ConvertVariable t of
                   None \<Rightarrow> Err (VariableCannotBeConverted (ValueString ext (ast_Ref t)))
                 | Some node \<Rightarrow> Ok node)))"
| "convertTerm ext lib cfg (Term (ast_String t) loc) = Ok (sqlast_String lib t)"
| "convertTerm ext lib cfg (Term (ast_Number t) loc) =
     Ok (Number (TermString ext (Term (ast_Number t) loc)) t)"
| "convertTerm ext lib cfg (Term (ast_Boolean t) loc) = Ok (Bool t)"
| "convertTerm ext lib cfg (Term (ast_Array t) loc) =
     (case convertElems ext lib cfg (ast_Array t) 0 t [] of
        Err err \<Rightarrow> Err err
      | Panic \<Rightarrow> Panic
      | Ok elems \<Rightarrow>
          (case sqlast_Array lib (TermString ext (Term (ast_Array t) loc)) elems of
             Inl err \<Rightarrow> Err err
           | Inr node \<Rightarrow> Ok node))"
| "convertTerm ext lib cfg (Term (ast_Object t) loc) = Err ObjectNotSupported"
| "convertTerm ext lib cfg (Term (ast_Set t) loc) =
     convertTerm ext lib cfg (Term (ast_Array (Sorted ext t)) loc)"
| "convertTerm ext lib cfg (Term (ast_Call t) loc) = convertCall ext lib cfg t"
| "convertTerm ext lib cfg (Term ast_Null loc) = Err (ValueNotSupported ''ast.Null'')"
| "convertTerm ext lib cfg (Term (ast_OtherValue name) loc) = Err (ValueNotSupported name)"
| "convertElems ext lib cfg arr i [] elems = Ok elems"
| "convertElems ext lib cfg arr i (t # ts) elems =
     (case convertTerm ext lib cfg t of
        Err err \<Rightarrow> Err (ArrayElementError i (ValueString ext arr) err)
      | Panic \<Rightarrow> Panic
      | Ok v \<Rightarrow> convertElems ext lib cfg arr (Suc i) ts (elems @ [v]))"
  by pat_completeness auto
termination
  apply (relation "measure (\<lambda>a. case a of
           Inl (Inl (ext, lib, cfg, ts)) \<Rightarrow> 2 * sum_list (map termSize ts) + 3
         | Inl (Inr (ext, lib, cfg, ts, n)) \<Rightarrow> 2 * sum_list (map termSize ts) + 2
         | Inr (Inl (ext, lib, cfg, ts, acc)) \<Rightarrow> 2 * sum_list (map termSize ts) + 1
         | Inr (Inr (Inl (ext, lib, cfg, t))) \<Rightarrow> 2 * termSize t
         | Inr (Inr (Inr (ext, lib, cfg, arr, i, ts, acc))) \<Rightarrow>
             2 * sum_list (map termSize ts) + 1)")
  apply (auto simp: sum_list_termSize_Sorted termSize_pos)
  done

text \<open>
  \<open>convertExpression\<close>: a call, or a single term, or neither. The assertion
  \<open>e.Terms.([]*ast.Term)\<close> follows \<open>IsCall\<close>, which tests the same type.
\<close>

definition convertExpression ::
    "opa \<Rightarrow> 'x sqlast \<Rightarrow> 'x ConvertConfig \<Rightarrow> ast_Expr \<Rightarrow> 'x node result" where
  "convertExpression ext lib cfg e =
     (if IsCall e
      then (case Terms e of
              CallTerms call \<Rightarrow>
                (case convertCall ext lib cfg call of
                   Err err \<Rightarrow> Err (CallError err)
                 | Panic \<Rightarrow> Panic
                 | Ok n \<Rightarrow>
                     if IsBooleanNode lib n then Ok n
                     else Err (CallNotBoolean (ExprString ext e)))
            | _ \<Rightarrow> Panic)
      else (case Terms e of
              SingleTerm term' \<Rightarrow>
                (case convertTerm ext lib cfg term' of
                   Err err \<Rightarrow> Err (ConvertTermError (TermString ext term') err)
                 | Panic \<Rightarrow> Panic
                 | Ok ty \<Rightarrow>
                     if IsBooleanNode lib ty then Ok ty
                     else Err (ConvertTermNotBoolean (TermString ext term')))
            | _ \<Rightarrow> Err (ExpressionNotSupported (ExprString ext e))))"

text \<open>\<open>convertQuery\<close>; its loop is \<open>convertQueryLoop\<close> (the expressions left, those converted).\<close>

fun convertQueryLoop ::
    "opa \<Rightarrow> 'x sqlast \<Rightarrow> 'x ConvertConfig \<Rightarrow> ast_Body \<Rightarrow> 'x node list \<Rightarrow> 'x node list result"
where
  "convertQueryLoop ext lib cfg [] expressions = Ok expressions"
| "convertQueryLoop ext lib cfg (e # es) expressions =
     (case convertExpression ext lib cfg e of
        Err err \<Rightarrow> Err (ExpressionError (ExprString ext e) err)
      | Panic \<Rightarrow> Panic
      | Ok exp' \<Rightarrow> convertQueryLoop ext lib cfg es (expressions @ [exp']))"

definition convertQuery ::
    "opa \<Rightarrow> 'x sqlast \<Rightarrow> 'x ConvertConfig \<Rightarrow> ast_Body \<Rightarrow> 'x node result" where
  "convertQuery ext lib cfg q =
     (case convertQueryLoop ext lib cfg q [] of
        Err err \<Rightarrow> Err err
      | Panic \<Rightarrow> Panic
      | Ok expressions \<Rightarrow> Ok (sqlast_And lib (BodyString ext q) expressions))"

text \<open>
  \<open>ConvertRegoAst\<close>. Its first loop is \<open>anyEmptyQuery\<close>; its second is \<open>convertQueries\<close>
  (the index, the queries left, the nodes and the builder's text so far).
\<close>

fun anyEmptyQuery :: "ast_Body list \<Rightarrow> bool" where
  "anyEmptyQuery [] = False"
| "anyEmptyQuery (q # qs) = (if length q = 0 then True else anyEmptyQuery qs)"

fun convertQueries ::
    "opa \<Rightarrow> 'x sqlast \<Rightarrow> 'x ConvertConfig \<Rightarrow> nat \<Rightarrow> ast_Body list \<Rightarrow> 'x node list \<Rightarrow> string
      \<Rightarrow> ('x node list \<times> string) result"
where
  "convertQueries ext lib cfg i [] queries builder = Ok (queries, builder)"
| "convertQueries ext lib cfg i (q # qs) queries builder =
     (case convertQuery ext lib cfg q of
        Err err \<Rightarrow> Err (QueryError (BodyString ext q) err)
      | Panic \<Rightarrow> Panic
      | Ok converted \<Rightarrow>
          if \<not> IsBooleanNode lib converted then Err (QueryNotBoolean (BodyString ext q))
          else convertQueries ext lib cfg (Suc i) qs (queries @ [converted])
                 ((if i \<noteq> 0 then builder @ [CHR 0x0A] else builder) @ BodyString ext q))"

definition ConvertRegoAst ::
    "opa \<Rightarrow> 'x sqlast \<Rightarrow> 'x ConvertConfig \<Rightarrow> PartialQueries \<Rightarrow> 'x node result" where
  "ConvertRegoAst ext lib cfg partial =
     (if length (Queries partial) = 0 then Ok (Bool False)
      else if anyEmptyQuery (Queries partial) then Ok (Bool True)
      else (case convertQueries ext lib cfg 0 (Queries partial) [] [] of
              Err err \<Rightarrow> Err err
            | Panic \<Rightarrow> Panic
            | Ok (queries, builder) \<Rightarrow> Ok (sqlast_Or lib builder queries)))"

section \<open>Notions of the statements\<close>

text \<open>Whether a result is a node and a nil error.\<close>

fun isOk :: "'a result \<Rightarrow> bool" where
  "isOk (Ok x) = True"
| "isOk r = False"

text \<open>
  One attempt of \<open>equality.SQLString\<close>: \<open>x\<close> is asked to render itself compared to
  \<open>y\<close>. The text is \<open>None\<close> when \<open>x\<close> does not implement \<open>SupportsEquality\<close> or
  returns an error.
\<close>

definition attempt ::
    "'x sqlast \<Rightarrow> 'x node \<Rightarrow> SQLGenerator \<Rightarrow> bool \<Rightarrow> 'x node \<Rightarrow> string option \<times> SQLGenerator"
where
  "attempt lib x cfg not' y =
     (if SupportsEquality lib x
      then (case EqualsSQLString lib x cfg not' y of
              (Inr v, c) \<Rightarrow> (Some v, c)
            | (Inl err, c) \<Rightarrow> (None, c))
      else (None, cfg))"

text \<open>The nodes whose \<open>EqualsSQLString\<close> is in the sources at hand.\<close>

fun inSources :: "'x node \<Rightarrow> bool" where
  "inSources (AstNumber s v) = True"
| "inSources (equality l r n) = True"
| "inSources n = False"





text \<open>
  The order of \<open>Compare\<close>, and what the library promises of it on the elements of a set:
  of two different elements exactly one is before the other, and the order is transitive.
\<close>

definition termLess :: "opa \<Rightarrow> ast_Term \<Rightarrow> ast_Term \<Rightarrow> bool" where
  "termLess ext a b = (Compare ext a b < 0)"

definition strictOrderOn :: "opa \<Rightarrow> ast_Term list \<Rightarrow> bool" where
  "strictOrderOn ext xs =
     ((\<forall>a\<in>set xs. \<forall>b\<in>set xs.
         (termLess ext a b \<longrightarrow> \<not> termLess ext b a)
         \<and> (a \<noteq> b \<longrightarrow> termLess ext a b \<or> termLess ext b a))
      \<and> (\<forall>a\<in>set xs. \<forall>b\<in>set xs. \<forall>c\<in>set xs.
            termLess ext a b \<and> termLess ext b c \<longrightarrow> termLess ext a c))"



section \<open>An instance of the parameters\<close>

text \<open>
  For evaluating the functions on concrete inputs: the node types that are not at hand as
  the spec lists them (string literal, array literal, member-of, and/or, column
  reference), each rendering as a fixed text, none supporting equality; a \<open>String()\<close>
  that prints a reference as its dotted path.
\<close>

datatype other =
    AstString string
  | AstArray RegoSource "other node list"
  | memberOf "other node" "other node"
  | binaryAnd RegoSource "other node list"
  | binaryOr RegoSource "other node list"
  | Column string

fun otherTypeName :: "other \<Rightarrow> string" where
  "otherTypeName (AstString s) = ''sqlast.AstString''"
| "otherTypeName (AstArray s xs) = ''sqlast.AstArray''"
| "otherTypeName (memberOf a b) = ''sqlast.memberOf''"
| "otherTypeName (binaryAnd s xs) = ''sqlast.binaryAnd''"
| "otherTypeName (binaryOr s xs) = ''sqlast.binaryOr''"
| "otherTypeName (Column c) = ''sqlast.Column''"

fun exampleText :: "other node \<Rightarrow> string" where
  "exampleText (AstBoolean b) = (if b then ''true'' else ''false'')"
| "exampleText (Other (AstString s)) = [CHR 0x27] @ s @ [CHR 0x27]"
| "exampleText (Other (Column c)) = c"
| "exampleText n = ''?''"

definition exampleUseAs :: "other node \<Rightarrow> gotype" where
  "exampleUseAs n =
     (case n of AstBoolean b \<Rightarrow> T_AstBoolean | Other x \<Rightarrow> T_other (otherTypeName x)
      | AstNumber s v \<Rightarrow> T_AstNumber | equality l r b \<Rightarrow> T_equality)"

definition exampleLib :: "other sqlast" where
  "exampleLib =
     \<lparr> sqlast_String = (\<lambda>s. Other (AstString s)),
       sqlast_Array = (\<lambda>source elems. Inr (Other (AstArray source elems))),
       sqlast_MemberOf = (\<lambda>a b. Other (memberOf a b)),
       sqlast_And = (\<lambda>source xs. Other (binaryAnd source xs)),
       sqlast_Or = (\<lambda>source xs. Other (binaryOr source xs)),
       typeName = otherTypeName,
       otherIsBooleanNode =
         (\<lambda>name. name = ''sqlast.memberOf'' \<or> name = ''sqlast.binaryAnd''
                   \<or> name = ''sqlast.binaryOr''),
       otherUseAs = exampleUseAs,
       otherSupportsEquality = (\<lambda>n. False),
       otherEqualsSQLString = (\<lambda>n not' other. (Inl (ExternalError ''unsupported''), [])),
       otherSQLString = (\<lambda>n. (exampleText n, [])) \<rparr>"

fun refPart :: "ast_Term \<Rightarrow> string" where
  "refPart (Term (ast_Var x) loc) = x"
| "refPart (Term (ast_String s) loc) = s"
| "refPart t = ''_''"

fun dotted :: "string list \<Rightarrow> string" where
  "dotted [] = []"
| "dotted [x] = x"
| "dotted (x # y # ys) = x @ ''.'' @ dotted (y # ys)"

fun exampleString :: "ast_Value \<Rightarrow> string" where
  "exampleString (ast_Var x) = x"
| "exampleString (ast_String s) = [CHR 0x22] @ s @ [CHR 0x22]"
| "exampleString (ast_Number n) = n"
| "exampleString (ast_Boolean b) = (if b then ''true'' else ''false'')"
| "exampleString (ast_Ref ts) = dotted (map refPart ts)"
| "exampleString v = ''...''"

text \<open>
  The order of the instance: values by their kind, numbers (decimal numerals) by their
  value, values of any other kind by their printed text.
\<close>

fun kindRank :: "ast_Value \<Rightarrow> nat" where
  "kindRank ast_Null = 0"
| "kindRank (ast_Boolean b) = 1"
| "kindRank (ast_Number n) = 2"
| "kindRank (ast_String s) = 3"
| "kindRank (ast_Var x) = 4"
| "kindRank (ast_Ref ts) = 5"
| "kindRank (ast_Array ts) = 6"
| "kindRank (ast_Object kvs) = 7"
| "kindRank (ast_Set ts) = 8"
| "kindRank (ast_Call ts) = 9"
| "kindRank (ast_OtherValue name) = 10"

definition decimal :: "string \<Rightarrow> nat" where
  "decimal s = foldl (\<lambda>n c. 10 * n + (of_char c - 48)) 0 s"

fun compareText :: "string \<Rightarrow> string \<Rightarrow> int" where
  "compareText [] [] = 0"
| "compareText [] (y # ys) = - 1"
| "compareText (x # xs) [] = 1"
| "compareText (x # xs) (y # ys) =
     (if (of_char x :: nat) < of_char y then - 1
      else if (of_char y :: nat) < of_char x then 1
      else compareText xs ys)"

definition exampleCompare :: "ast_Term \<Rightarrow> ast_Term \<Rightarrow> int" where
  "exampleCompare a b =
     (if kindRank (Value a) < kindRank (Value b) then - 1
      else if kindRank (Value b) < kindRank (Value a) then 1
      else (case (Value a, Value b) of
              (ast_Number x, ast_Number y) \<Rightarrow>
                (if decimal x < decimal y then - 1
                 else if decimal y < decimal x then 1 else 0)
            | _ \<Rightarrow> compareText (exampleString (Value a)) (exampleString (Value b))))"

definition exampleOpa :: opa where
  "exampleOpa =
     \<lparr> ValueString = exampleString,
       ExprString =
         (\<lambda>e. case Terms e of
                 CallTerms ts \<Rightarrow> dotted (map (\<lambda>t. exampleString (Value t)) ts)
               | SingleTerm t \<Rightarrow> exampleString (Value t)
               | OtherTerms \<Rightarrow> ''...''),
       BodyString = (\<lambda>q. ''...''),
       Compare = exampleCompare \<rparr>"

definition exampleConverter :: "ast_Term list \<Rightarrow> other node option" where
  "exampleConverter t =
     (if map refPart t = [''input'', ''object'', ''owner'']
      then Some (Other (Column ''owner_id :: text''))
      else None)"

definition noConfig :: "other ConvertConfig" where
  "noConfig = \<lparr> VariableConverter = None \<rparr>"

definition exampleConfig :: "other ConvertConfig" where
  "exampleConfig = \<lparr> VariableConverter = Some exampleConverter \<rparr>"

subsection \<open>Inputs for the evaluations\<close>

definition num :: "string \<Rightarrow> ast_Term" where
  "num v = Term (ast_Number v) None"

definition operator :: "string list \<Rightarrow> ast_Term" where
  "operator path =
     Term (ast_Ref (Term (ast_Var (hd path)) None
                    # map (\<lambda>s. Term (ast_String s) None) (tl path))) None"

definition trueExpr :: ast_Expr where
  "trueExpr = \<lparr> Negated = False, Terms = SingleTerm (Term (ast_Boolean True) None) \<rparr>"

definition gtExpr :: ast_Expr where
  "gtExpr = \<lparr> Negated = False, Terms = CallTerms [operator [''gt''], num ''1'', num ''2''] \<rparr>"

definition ref :: "string list \<Rightarrow> ast_Term" where
  "ref path = operator path"

text \<open>A library in which no node type that is not at hand implements \<open>BooleanNode\<close>.\<close>

definition plainLib :: "other sqlast" where
  "plainLib = exampleLib\<lparr> otherIsBooleanNode := (\<lambda>name. False) \<rparr>"

definition numExpr :: ast_Expr where
  "numExpr = \<lparr> Negated = False, Terms = SingleTerm (num ''1'') \<rparr>"

definition memberExpr :: ast_Expr where
  "memberExpr =
     \<lparr> Negated = False,
       Terms = CallTerms [operator [''internal'', ''member_2''], num ''1'', num ''2''] \<rparr>"

definition one :: "other node" where
  "one = AstNumber ''1'' ''1''"

definition two :: "other node" where
  "two = AstNumber ''2'' ''2''"

definition noErrors :: SQLGenerator where
  "noErrors = \<lparr> errors = [] \<rparr>"



section \<open>The top level\<close>

text \<open>
  C1. For every partial query set whose sequence of queries is empty, \<open>ConvertRegoAst\<close>
  succeeds and returns exactly the boolean literal node \<open>false\<close>, whatever the variable
  converter, the library and the configuration are: nothing is converted.
\<close>

theorem ConvertRegoAst_no_queries:
  "Queries partial = [] \<Longrightarrow> ConvertRegoAst ext lib cfg partial = Ok (AstBoolean False)"
  by (simp add: ConvertRegoAst_def Bool_def)

theorem ConvertRegoAst_no_queries_witness:
  "ConvertRegoAst exampleOpa exampleLib noConfig \<lparr> Queries = [] \<rparr> = Ok (AstBoolean False)"
  using ConvertRegoAst_no_queries [of "\<lparr> Queries = [] \<rparr>" exampleOpa exampleLib noConfig]
  by simp

lemma anyEmptyQuery_iff: "anyEmptyQuery qs \<longleftrightarrow> [] \<in> set qs"
  by (induction qs) auto

text \<open>
  C2. For every non-empty partial query set in which at least one query has no
  expression, \<open>ConvertRegoAst\<close> succeeds and returns exactly the boolean literal node
  \<open>true\<close>.
\<close>

theorem ConvertRegoAst_empty_query:
  assumes "Queries partial \<noteq> []" and "q \<in> set (Queries partial)" and "length q = 0"
  shows "ConvertRegoAst ext lib cfg partial = Ok (AstBoolean True)"
proof -
  from assms(2,3) have "[] \<in> set (Queries partial)" by simp
  then have "anyEmptyQuery (Queries partial)" by (simp add: anyEmptyQuery_iff)
  with assms(1) show ?thesis by (simp add: ConvertRegoAst_def Bool_def)
qed

theorem ConvertRegoAst_empty_query_witness:
  "ConvertRegoAst exampleOpa exampleLib noConfig \<lparr> Queries = [[trueExpr], []] \<rparr>
     = Ok (AstBoolean True)"
  using ConvertRegoAst_empty_query
    [of "\<lparr> Queries = [[trueExpr], []] \<rparr>" "[]" exampleOpa exampleLib noConfig]
  by simp

lemma convertQueries_not_Ok:
  "q \<in> set qs \<Longrightarrow> \<not> isOk (convertQuery ext lib cfg q)
    \<Longrightarrow> \<not> isOk (convertQueries ext lib cfg i qs queries builder)"
proof (induction qs arbitrary: i queries builder)
  case Nil
  then show ?case by simp
next
  case (Cons p ps)
  show ?case
  proof (cases "convertQuery ext lib cfg p")
    case (Ok converted)
    with Cons.prems have "q \<in> set ps" by auto
    with Cons.IH Cons.prems(2) Ok show ?thesis by simp
  qed simp_all
qed

text \<open>
  C9. The check for a query of no expression comes before any conversion: a query set
  that holds such a query, wherever it stands, compiles to the literal \<open>true\<close> with no
  error, also when another query of the set fails to convert, so that the set without
  the empty query does not compile.
\<close>

theorem ConvertRegoAst_empty_query_first:
  "ConvertRegoAst ext lib cfg \<lparr> Queries = qs1 @ [] # qs2 \<rparr> = Ok (AstBoolean True) \<and>
   (q \<in> set (qs1 @ qs2) \<and> convertQuery ext lib cfg q = Err e \<and> [] \<notin> set (qs1 @ qs2)
      \<longrightarrow> \<not> isOk (ConvertRegoAst ext lib cfg \<lparr> Queries = qs1 @ qs2 \<rparr>))"
proof
  show "ConvertRegoAst ext lib cfg \<lparr> Queries = qs1 @ [] # qs2 \<rparr> = Ok (AstBoolean True)"
    by (simp add: ConvertRegoAst_def Bool_def anyEmptyQuery_iff)
next
  show "q \<in> set (qs1 @ qs2) \<and> convertQuery ext lib cfg q = Err e \<and> [] \<notin> set (qs1 @ qs2)
      \<longrightarrow> \<not> isOk (ConvertRegoAst ext lib cfg \<lparr> Queries = qs1 @ qs2 \<rparr>)"
  proof
    assume h: "q \<in> set (qs1 @ qs2) \<and> convertQuery ext lib cfg q = Err e
      \<and> [] \<notin> set (qs1 @ qs2)"
    then have "\<not> isOk (convertQueries ext lib cfg 0 (qs1 @ qs2) [] [])"
      by (intro convertQueries_not_Ok [of q]) simp_all
    moreover from h have "qs1 @ qs2 \<noteq> []" by auto
    moreover from h have "\<not> anyEmptyQuery (qs1 @ qs2)" by (simp add: anyEmptyQuery_iff)
    ultimately show "\<not> isOk (ConvertRegoAst ext lib cfg \<lparr> Queries = qs1 @ qs2 \<rparr>)"
      by (auto simp: ConvertRegoAst_def split: result.splits)
  qed
qed

lemma convertQuery_gtExpr:
  "convertQuery exampleOpa exampleLib noConfig [gtExpr]
     = Err (ExpressionError ''gt.1.2'' (CallError (OperatorNotSupported ''gt'')))"
  by (simp add: convertQuery_def convertExpression_def IsCall_def gtExpr_def operator_def
      num_def exampleOpa_def TermString_def)

theorem ConvertRegoAst_empty_query_first_witness:
  "ConvertRegoAst exampleOpa exampleLib noConfig \<lparr> Queries = [[gtExpr], []] \<rparr>
     = Ok (AstBoolean True) \<and>
   \<not> isOk (ConvertRegoAst exampleOpa exampleLib noConfig \<lparr> Queries = [[gtExpr]] \<rparr>)"
  using ConvertRegoAst_empty_query_first
    [of exampleOpa exampleLib noConfig "[[gtExpr]]" "[]" "[gtExpr]"
        "ExpressionError ''gt.1.2'' (CallError (OperatorNotSupported ''gt''))"]
    convertQuery_gtExpr
  by (simp add: gtExpr_def)

section \<open>Calls\<close>

text \<open>
  A call value of no terms, which has no operator, panics at \<open>call[0]\<close>; the policy
  engine builds every call with its operator first.
\<close>

lemma convertCall_no_terms: "convertCall ext lib cfg [] = Panic"
  by simp

lemma convertTerms_two:
  "convertTerm ext lib cfg x = Ok a \<Longrightarrow> convertTerm ext lib cfg y = Ok b
    \<Longrightarrow> convertTerms ext lib cfg [x, y] 2 = Ok [a, b]"
  by simp

lemma convertTerms_count:
  "length args \<noteq> n \<Longrightarrow> convertTerms ext lib cfg args n = Err (ExpectedTerms n (length args))"
  by simp

text \<open>
  C3. \<open>convertCall\<close> dispatches on the name of the operator, the first term of the call.
  With \<open>eq\<close>, \<open>neq\<close>, \<open>equals\<close> or \<open>equal\<close> and exactly two arguments that convert, the
  result is the equality node over the two converted operands, negated exactly when the
  name is \<open>neq\<close>. With \<open>internal.member_2\<close> and exactly two arguments that convert, it is
  the member-of node over them. With one of these five names and a number of arguments
  other than two, it is the error of the argument count, and no argument is converted.
  With any other name it is the error that names the operator. An error comes with no
  node.
\<close>

theorem convertCall_dispatch:
  "(TermString ext op \<in> {''eq'', ''neq'', ''equals'', ''equal''}
      \<and> convertTerm ext lib cfg x = Ok a \<and> convertTerm ext lib cfg y = Ok b
    \<longrightarrow> convertCall ext lib cfg [op, x, y]
          = Ok (equality a b (TermString ext op = ''neq''))) \<and>
   (TermString ext op = ''internal.member_2''
      \<and> convertTerm ext lib cfg x = Ok a \<and> convertTerm ext lib cfg y = Ok b
    \<longrightarrow> convertCall ext lib cfg [op, x, y] = Ok (sqlast_MemberOf lib a b)) \<and>
   (TermString ext op \<in> {''eq'', ''neq'', ''equals'', ''equal'', ''internal.member_2''}
      \<and> length args \<noteq> 2
    \<longrightarrow> convertCall ext lib cfg (op # args)
          = Err (ArgumentsError (ExpectedTerms 2 (length args)))) \<and>
   (TermString ext op \<notin> {''eq'', ''neq'', ''equals'', ''equal'', ''internal.member_2''}
    \<longrightarrow> convertCall ext lib cfg (op # args) = Err (OperatorNotSupported (TermString ext op)))"
proof (intro conjI impI)
  assume h: "TermString ext op \<in> {''eq'', ''neq'', ''equals'', ''equal''}
      \<and> convertTerm ext lib cfg x = Ok a \<and> convertTerm ext lib cfg y = Ok b"
  then have "convertTerms ext lib cfg [x, y] 2 = Ok [a, b]"
    by (simp only: convertTerms_two)
  with h show "convertCall ext lib cfg [op, x, y]
      = Ok (equality a b (TermString ext op = ''neq''))"
    by (auto simp add: Equality_def simp del: convertTerms.simps)
next
  assume h: "TermString ext op = ''internal.member_2''
      \<and> convertTerm ext lib cfg x = Ok a \<and> convertTerm ext lib cfg y = Ok b"
  then have "convertTerms ext lib cfg [x, y] 2 = Ok [a, b]"
    by (simp only: convertTerms_two)
  with h show "convertCall ext lib cfg [op, x, y] = Ok (sqlast_MemberOf lib a b)"
    by (simp del: convertTerms.simps)
next
  assume h: "TermString ext op
      \<in> {''eq'', ''neq'', ''equals'', ''equal'', ''internal.member_2''} \<and> length args \<noteq> 2"
  then have "convertTerms ext lib cfg args 2 = Err (ExpectedTerms 2 (length args))"
    by (intro convertTerms_count) simp
  with h show "convertCall ext lib cfg (op # args)
      = Err (ArgumentsError (ExpectedTerms 2 (length args)))"
    by (auto simp del: convertTerms.simps)
next
  assume "TermString ext op
      \<notin> {''eq'', ''neq'', ''equals'', ''equal'', ''internal.member_2''}"
  then show "convertCall ext lib cfg (op # args)
      = Err (OperatorNotSupported (TermString ext op))"
    by simp
qed

theorem convertCall_dispatch_witness:
  "convertCall exampleOpa exampleLib noConfig [operator [''neq''], num ''1'', num ''2'']
     = Ok (equality (AstNumber ''1'' ''1'') (AstNumber ''2'' ''2'') True) \<and>
   convertCall exampleOpa exampleLib noConfig
       [operator [''internal'', ''member_2''], num ''1'', num ''2'']
     = Ok (Other (memberOf (AstNumber ''1'' ''1'') (AstNumber ''2'' ''2''))) \<and>
   convertCall exampleOpa exampleLib noConfig [operator [''neq''], num ''1'']
     = Err (ArgumentsError (ExpectedTerms 2 1)) \<and>
   convertCall exampleOpa exampleLib noConfig [operator [''gt''], num ''1'']
     = Err (OperatorNotSupported ''gt'')"
proof -
  have s: "TermString exampleOpa (operator [''neq'']) = ''neq''"
    "TermString exampleOpa (operator [''gt'']) = ''gt''"
    "TermString exampleOpa (operator [''internal'', ''member_2'']) = ''internal.member_2''"
    by (simp_all add: TermString_def exampleOpa_def operator_def)
  have n: "convertTerm exampleOpa exampleLib noConfig (num ''1'') = Ok (AstNumber ''1'' ''1'')"
    "convertTerm exampleOpa exampleLib noConfig (num ''2'') = Ok (AstNumber ''2'' ''2'')"
    by (simp_all add: num_def Number_def TermString_def exampleOpa_def)
  have l: "sqlast_MemberOf exampleLib = (\<lambda>a b. Other (memberOf a b))"
    by (simp add: exampleLib_def)
  show ?thesis
    using convertCall_dispatch
      [of exampleOpa "operator [''neq'']" exampleLib noConfig "num ''1''"
          "AstNumber ''1'' ''1''" "num ''2''" "AstNumber ''2'' ''2''" "[num ''1'']"]
      convertCall_dispatch
      [of exampleOpa "operator [''internal'', ''member_2'']" exampleLib noConfig "num ''1''"
          "AstNumber ''1'' ''1''" "num ''2''" "AstNumber ''2'' ''2''" "[]"]
      convertCall_dispatch
      [of exampleOpa "operator [''gt'']" exampleLib noConfig "num ''1''"
          "AstNumber ''1'' ''1''" "num ''2''" "AstNumber ''2'' ''2''" "[num ''1'']"]
    by (simp only: s n l) simp
qed

section \<open>Terms\<close>

text \<open>
  C6. A term that is a reference converts to an error whenever the reference cannot be
  resolved: when it is empty, when no variable converter was configured, when the
  configured converter does not convert the path. It converts to a node only when it is
  not empty and the configured converter returns that node.
\<close>

theorem convertTerm_unresolved_ref:
  "convertTerm ext lib cfg (Term (ast_Ref []) loc) = Err EmptyRefNotSupported \<and>
   (t \<noteq> [] \<and> VariableConverter cfg = None
      \<longrightarrow> convertTerm ext lib cfg (Term (ast_Ref t) loc) = Err NoVariableConverter) \<and>
   (t \<noteq> [] \<and> VariableConverter cfg = Some ConvertVariable \<and> ConvertVariable t = None
      \<longrightarrow> convertTerm ext lib cfg (Term (ast_Ref t) loc)
            = Err (VariableCannotBeConverted (ValueString ext (ast_Ref t)))) \<and>
   (convertTerm ext lib cfg (Term (ast_Ref t) loc) = Ok n
      \<longrightarrow> t \<noteq> [] \<and> (\<exists>f. VariableConverter cfg = Some f \<and> f t = Some n))"
  by (auto split: option.splits if_splits)

theorem convertTerm_unresolved_ref_witness:
  "convertTerm exampleOpa exampleLib exampleConfig (Term (ast_Ref []) None)
     = Err EmptyRefNotSupported \<and>
   convertTerm exampleOpa exampleLib noConfig (ref [''input'', ''object'', ''owner''])
     = Err NoVariableConverter \<and>
   convertTerm exampleOpa exampleLib exampleConfig (ref [''input'', ''object'', ''name''])
     = Err (VariableCannotBeConverted ''input.object.name'') \<and>
   convertTerm exampleOpa exampleLib exampleConfig (ref [''input'', ''object'', ''owner''])
     = Ok (Other (Column ''owner_id :: text''))"
  using convertTerm_unresolved_ref
    [of exampleOpa exampleLib exampleConfig None
        "[Term (ast_Var ''input'') None, Term (ast_String ''object'') None,
          Term (ast_String ''name'') None]"
        exampleConverter "Other (Column ''owner_id :: text'')"]
    convertTerm_unresolved_ref
    [of exampleOpa exampleLib noConfig None
        "[Term (ast_Var ''input'') None, Term (ast_String ''object'') None,
          Term (ast_String ''owner'') None]"
        exampleConverter "Other (Column ''owner_id :: text'')"]
    convertTerm_unresolved_ref
    [of exampleOpa exampleLib exampleConfig None
        "[Term (ast_Var ''input'') None, Term (ast_String ''object'') None,
          Term (ast_String ''owner'') None]"
        exampleConverter "Other (Column ''owner_id :: text'')"]
  by (simp add: ref_def operator_def exampleConfig_def noConfig_def exampleConverter_def
      exampleOpa_def)

lemma strictOrderOn_subset:
  "strictOrderOn ext xs \<Longrightarrow> set ys \<subseteq> set xs \<Longrightarrow> strictOrderOn ext ys"
  unfolding strictOrderOn_def by (meson subsetD)

lemma strictOrderOn_asym:
  "strictOrderOn ext xs \<Longrightarrow> a \<in> set xs \<Longrightarrow> b \<in> set xs \<Longrightarrow> termLess ext a b
    \<Longrightarrow> \<not> termLess ext b a"
  unfolding strictOrderOn_def by blast

lemma strictOrderOn_total:
  "strictOrderOn ext xs \<Longrightarrow> a \<in> set xs \<Longrightarrow> b \<in> set xs \<Longrightarrow> a \<noteq> b
    \<Longrightarrow> \<not> termLess ext a b \<Longrightarrow> termLess ext b a"
  unfolding strictOrderOn_def by blast

lemma strictOrderOn_trans:
  "strictOrderOn ext xs \<Longrightarrow> a \<in> set xs \<Longrightarrow> b \<in> set xs \<Longrightarrow> c \<in> set xs
    \<Longrightarrow> termLess ext a b \<Longrightarrow> termLess ext b c \<Longrightarrow> termLess ext a c"
  unfolding strictOrderOn_def by blast

lemma set_insertSorted: "set (insertSorted ext x ys) = insert x (set ys)"
  by (induction ys) auto

lemma set_Sorted: "set (Sorted ext xs) = set xs"
  by (induction xs) (simp_all add: set_insertSorted)

lemma length_insertSorted: "length (insertSorted ext x ys) = Suc (length ys)"
  by (induction ys) auto

lemma length_Sorted: "length (Sorted ext xs) = length xs"
  by (induction xs) (simp_all add: length_insertSorted)

lemma insertSorted_eq: "insertSorted ext x (y # ys) =
     (if termLess ext x y then x # y # ys else y # insertSorted ext x ys)"
  by (simp add: termLess_def)

lemma sorted_insertSorted:
  assumes "strictOrderOn ext (x # ys)" and "x \<notin> set ys" and "sorted_wrt (termLess ext) ys"
  shows "sorted_wrt (termLess ext) (insertSorted ext x ys)"
  using assms
proof (induction ys)
  case Nil
  then show ?case by simp
next
  case (Cons y ys)
  have sub: "strictOrderOn ext (x # ys)"
    using Cons.prems(1) by (rule strictOrderOn_subset) auto
  show ?case
  proof (cases "termLess ext x y")
    case True
    have "termLess ext x z" if "z \<in> set ys" for z
    proof -
      from Cons.prems(3) that have "termLess ext y z" by simp
      with True show ?thesis
        using strictOrderOn_trans [OF Cons.prems(1), of x y z] that by simp
    qed
    with True Cons.prems(3) show ?thesis
      by (simp only: insertSorted_eq if_True) auto
  next
    case False
    from Cons.prems(2) have ne: "y \<noteq> x" by auto
    from False ne have yx: "termLess ext y x"
      using strictOrderOn_total [OF Cons.prems(1), of x y] by simp
    have "sorted_wrt (termLess ext) (insertSorted ext x ys)"
      using Cons.IH [OF sub] Cons.prems(2,3) by simp
    with False yx Cons.prems(3) show ?thesis
      by (simp only: insertSorted_eq if_False) (auto simp: set_insertSorted)
  qed
qed

lemma sorted_Sorted:
  "strictOrderOn ext xs \<Longrightarrow> distinct xs \<Longrightarrow> sorted_wrt (termLess ext) (Sorted ext xs)"
proof (induction xs)
  case Nil
  then show ?case by simp
next
  case (Cons x xs)
  have "strictOrderOn ext xs"
    using Cons.prems(1) by (rule strictOrderOn_subset) auto
  with Cons have s: "sorted_wrt (termLess ext) (Sorted ext xs)" by simp
  have "strictOrderOn ext (x # Sorted ext xs)"
    using Cons.prems(1) by (rule strictOrderOn_subset) (simp add: set_Sorted)
  moreover from Cons.prems(2) have "x \<notin> set (Sorted ext xs)" by (simp add: set_Sorted)
  ultimately show ?case using s by (simp add: sorted_insertSorted)
qed

lemma sorted_wrt_unique:
  "strictOrderOn ext xs \<Longrightarrow> sorted_wrt (termLess ext) xs \<Longrightarrow> sorted_wrt (termLess ext) ys
    \<Longrightarrow> set ys = set xs \<Longrightarrow> ys = xs"
proof (induction xs arbitrary: ys)
  case Nil
  then show ?case by simp
next
  case (Cons x xs)
  from Cons.prems(4) obtain y ys' where ys: "ys = y # ys'" by (cases ys) auto
  have irr: "\<not> termLess ext a a" if "a \<in> set (x # xs)" for a
    using strictOrderOn_asym [OF Cons.prems(1) that that] by blast
  have xy: "y = x"
  proof (rule ccontr)
    assume n: "y \<noteq> x"
    with Cons.prems(4) ys have "x \<in> set ys'" "y \<in> set xs" by auto
    with Cons.prems(2,3) ys have "termLess ext y x" "termLess ext x y" by auto
    moreover have "x \<in> set (x # xs)" "y \<in> set (x # xs)" using \<open>y \<in> set xs\<close> by auto
    ultimately show False using strictOrderOn_asym [OF Cons.prems(1)] by blast
  qed
  have "x \<notin> set xs" using Cons.prems(2) irr [of x] by auto
  moreover have "x \<notin> set ys'" using Cons.prems(3) irr [of x] ys xy by auto
  ultimately have "set ys' = set xs" using Cons.prems(4) ys xy by auto
  moreover have "strictOrderOn ext xs"
    using Cons.prems(1) by (rule strictOrderOn_subset) auto
  ultimately have "ys' = xs" using Cons.IH [of ys'] Cons.prems(2,3) ys by simp
  with ys xy show ?case by simp
qed

text \<open>
  C8. A term that is a set converts as the array of its elements in the order of
  \<open>Sorted\<close>, whatever the locations. \<open>Sorted\<close> keeps the elements; when \<open>Compare\<close>
  orders the elements of the set (a strict total order on them), its result is in that
  order and is the only listing of the elements in that order. So an array term of the
  set's elements in order converts to the same result as the set, and so does the same
  set with its elements written in any other order.
\<close>

theorem convertTerm_set_as_sorted_array:
  "convertTerm ext lib cfg (Term (ast_Set xs) loc)
     = convertTerm ext lib cfg (Term (ast_Array (Sorted ext xs)) loc') \<and>
   set (Sorted ext xs) = set xs \<and> length (Sorted ext xs) = length xs \<and>
   (strictOrderOn ext xs \<and> distinct xs
      \<longrightarrow> sorted_wrt (termLess ext) (Sorted ext xs)) \<and>
   (strictOrderOn ext xs \<and> distinct xs \<and> sorted_wrt (termLess ext) zs \<and> set zs = set xs
      \<longrightarrow> zs = Sorted ext xs
        \<and> convertTerm ext lib cfg (Term (ast_Array zs) loc')
            = convertTerm ext lib cfg (Term (ast_Set xs) loc)) \<and>
   (strictOrderOn ext xs \<and> distinct xs \<and> distinct ys \<and> set ys = set xs
      \<longrightarrow> Sorted ext ys = Sorted ext xs
        \<and> convertTerm ext lib cfg (Term (ast_Set ys) loc')
            = convertTerm ext lib cfg (Term (ast_Set xs) loc))"
proof -
  have conv: "convertTerm ext lib cfg (Term (ast_Set us) l1)
     = convertTerm ext lib cfg (Term (ast_Array (Sorted ext us)) l2)" for us l1 l2
    by (simp add: TermString_def split: result.splits)
  have uniq: "zs = Sorted ext xs"
    if "strictOrderOn ext xs" "distinct xs" "sorted_wrt (termLess ext) zs" "set zs = set xs"
    for xs zs
  proof -
    from that(1) have 1: "strictOrderOn ext (Sorted ext xs)"
      by (rule strictOrderOn_subset) (simp add: set_Sorted)
    from that(1,2) have 2: "sorted_wrt (termLess ext) (Sorted ext xs)"
      by (rule sorted_Sorted)
    from that(4) have 3: "set zs = set (Sorted ext xs)"
      by (simp only: set_Sorted)
    show ?thesis
      by (rule sorted_wrt_unique [OF 1 2 that(3) 3])
  qed
  have perm: "Sorted ext ys = Sorted ext xs"
    if "strictOrderOn ext xs" "distinct xs" "distinct ys" "set ys = set xs"
  proof -
    from that(4) have "set ys \<subseteq> set xs" by (simp only: subset_refl)
    with that(1) have "strictOrderOn ext ys" by (rule strictOrderOn_subset)
    then have 1: "sorted_wrt (termLess ext) (Sorted ext ys)"
      using that(3) by (rule sorted_Sorted)
    from that(4) have 2: "set (Sorted ext ys) = set xs" by (simp only: set_Sorted)
    show ?thesis
      by (rule uniq [OF that(1,2) 1 2])
  qed
  show ?thesis
  proof (intro conjI impI)
    show "convertTerm ext lib cfg (Term (ast_Set xs) loc)
        = convertTerm ext lib cfg (Term (ast_Array (Sorted ext xs)) loc')"
      by (rule conv)
    show "set (Sorted ext xs) = set xs" by (rule set_Sorted)
    show "length (Sorted ext xs) = length xs" by (rule length_Sorted)
  next
    assume h: "strictOrderOn ext xs \<and> distinct xs"
    show "sorted_wrt (termLess ext) (Sorted ext xs)"
      by (rule sorted_Sorted [OF conjunct1 [OF h] conjunct2 [OF h]])
  next
    assume h: "strictOrderOn ext xs \<and> distinct xs \<and> sorted_wrt (termLess ext) zs
        \<and> set zs = set xs"
    from h have a: "strictOrderOn ext xs" "distinct xs" "sorted_wrt (termLess ext) zs"
      "set zs = set xs" by blast+
    show z: "zs = Sorted ext xs" by (rule uniq [OF a])
    show "convertTerm ext lib cfg (Term (ast_Array zs) loc')
        = convertTerm ext lib cfg (Term (ast_Set xs) loc)"
      unfolding z by (rule conv [symmetric])
  next
    assume h: "strictOrderOn ext xs \<and> distinct xs \<and> distinct ys \<and> set ys = set xs"
    from h have a: "strictOrderOn ext xs" "distinct xs" "distinct ys" "set ys = set xs"
      by blast+
    show p: "Sorted ext ys = Sorted ext xs" by (rule perm [OF a])
    have "convertTerm ext lib cfg (Term (ast_Set ys) loc')
        = convertTerm ext lib cfg (Term (ast_Array (Sorted ext ys)) None)"
      by (rule conv)
    also have "\<dots> = convertTerm ext lib cfg (Term (ast_Array (Sorted ext xs)) None)"
      by (simp only: p)
    also have "\<dots> = convertTerm ext lib cfg (Term (ast_Set xs) loc)"
      by (rule conv [symmetric])
    finally show "convertTerm ext lib cfg (Term (ast_Set ys) loc')
        = convertTerm ext lib cfg (Term (ast_Set xs) loc)" .
  qed
qed


theorem convertTerm_set_as_sorted_array_witness:
  "strictOrderOn exampleOpa [num ''22'', num ''1''] \<and>
   Sorted exampleOpa [num ''22'', num ''1''] = [num ''1'', num ''22''] \<and>
   Sorted exampleOpa [num ''1'', num ''22''] = [num ''1'', num ''22''] \<and>
   sorted_wrt (termLess exampleOpa) [num ''1'', num ''22''] \<and>
   convertTerm exampleOpa exampleLib noConfig (Term (ast_Set [num ''22'', num ''1'']) None)
     = Ok (Other (AstArray ''...'' [AstNumber ''1'' ''1'', AstNumber ''22'' ''22''])) \<and>
   convertTerm exampleOpa exampleLib noConfig
       (Term (ast_Set [num ''1'', num ''22'']) (Some (1, 1)))
     = Ok (Other (AstArray ''...'' [AstNumber ''1'' ''1'', AstNumber ''22'' ''22''])) \<and>
   convertTerm exampleOpa exampleLib noConfig
       (Term (ast_Array [num ''1'', num ''22'']) (Some (1, 1)))
     = Ok (Other (AstArray ''...'' [AstNumber ''1'' ''1'', AstNumber ''22'' ''22'']))"
proof -
  let ?xs = "[num ''22'', num ''1'']" and ?ys = "[num ''1'', num ''22'']"
  let ?node = "Ok (Other (AstArray ''...'' [AstNumber ''1'' ''1'', AstNumber ''22'' ''22'']))"
  have n: "decimal ''1'' = 1" "decimal ''22'' = 22"
    by (simp_all add: decimal_def)
  have c: "termLess exampleOpa (num ''1'') (num ''22'')"
    "\<not> termLess exampleOpa (num ''22'') (num ''1'')"
    "\<not> termLess exampleOpa (num ''1'') (num ''1'')"
    "\<not> termLess exampleOpa (num ''22'') (num ''22'')"
    by (simp_all add: termLess_def exampleOpa_def exampleCompare_def num_def n)
  have ne: "num ''22'' \<noteq> num ''1''" by (simp add: num_def)
  have o: "strictOrderOn exampleOpa ?xs"
    unfolding strictOrderOn_def using c ne by (simp del: One_nat_def)
  have d: "distinct ?xs" "distinct ?ys" "set ?ys = set ?xs"
    using ne by (simp_all add: insert_commute)
  have w: "sorted_wrt (termLess exampleOpa) ?ys" using c(1) by simp
  have a: "convertTerm exampleOpa exampleLib noConfig (Term (ast_Array ?ys) (Some (1, 1)))
     = ?node"
    by (simp add: exampleOpa_def exampleLib_def num_def Number_def TermString_def)
  note t = convertTerm_set_as_sorted_array
      [of exampleOpa exampleLib noConfig ?xs None "Some (1, 1)" ?ys ?ys]
  from t o d(1) w d(3) have z: "?ys = Sorted exampleOpa ?xs"
    and ca: "convertTerm exampleOpa exampleLib noConfig (Term (ast_Array ?ys) (Some (1, 1)))
      = convertTerm exampleOpa exampleLib noConfig (Term (ast_Set ?xs) None)"
    by blast+
  from t o d have p: "Sorted exampleOpa ?ys = Sorted exampleOpa ?xs"
    and cs: "convertTerm exampleOpa exampleLib noConfig (Term (ast_Set ?ys) (Some (1, 1)))
      = convertTerm exampleOpa exampleLib noConfig (Term (ast_Set ?xs) None)"
    by blast+
  have 1: "Sorted exampleOpa ?xs = ?ys" using z by (rule sym)
  have 2: "Sorted exampleOpa ?ys = ?ys" using p 1 by (rule trans)
  have 3: "convertTerm exampleOpa exampleLib noConfig (Term (ast_Set ?xs) None) = ?node"
    using ca [symmetric] a by (rule trans)
  have 4: "convertTerm exampleOpa exampleLib noConfig (Term (ast_Set ?ys) (Some (1, 1)))
      = ?node"
    using cs 3 by (rule trans)
  from o 1 2 w 3 4 a show ?thesis by blast
qed

section \<open>Expressions\<close>

text \<open>
  C7. An expression that is a single term converts to a node only when the term converts
  to that node and the node is a boolean node; when the term converts to a node that is
  not a boolean node, the expression is an error. A call that converts to a node that is
  not a boolean node is an error as well.
\<close>

theorem convertExpression_boolean_only:
  "(Terms e = SingleTerm t \<and> convertExpression ext lib cfg e = Ok n
      \<longrightarrow> convertTerm ext lib cfg t = Ok n \<and> IsBooleanNode lib n) \<and>
   (Terms e = SingleTerm t \<and> convertTerm ext lib cfg t = Ok n \<and> IsBooleanNode lib n
      \<longrightarrow> convertExpression ext lib cfg e = Ok n) \<and>
   (Terms e = SingleTerm t \<and> convertTerm ext lib cfg t = Ok n \<and> \<not> IsBooleanNode lib n
      \<longrightarrow> convertExpression ext lib cfg e = Err (ConvertTermNotBoolean (TermString ext t))) \<and>
   (Terms e = CallTerms call \<and> convertCall ext lib cfg call = Ok n \<and> \<not> IsBooleanNode lib n
      \<longrightarrow> convertExpression ext lib cfg e = Err (CallNotBoolean (ExprString ext e)))"
  by (auto simp: convertExpression_def IsCall_def split: result.splits if_splits)

theorem convertExpression_boolean_only_witness:
  "convertExpression exampleOpa exampleLib noConfig trueExpr = Ok (AstBoolean True) \<and>
   convertExpression exampleOpa exampleLib noConfig numExpr
     = Err (ConvertTermNotBoolean ''1'') \<and>
   convertExpression exampleOpa plainLib noConfig memberExpr
     = Err (CallNotBoolean ''internal.member_2.1.2'')"
proof -
  have t: "convertTerm exampleOpa exampleLib noConfig (Term (ast_Boolean True) None)
      = Ok (AstBoolean True)"
    "convertTerm exampleOpa exampleLib noConfig (num ''1'') = Ok (AstNumber ''1'' ''1'')"
    by (simp_all add: Bool_def num_def Number_def TermString_def exampleOpa_def)
  have c: "convertCall exampleOpa plainLib noConfig
       [operator [''internal'', ''member_2''], num ''1'', num ''2'']
      = Ok (Other (memberOf (AstNumber ''1'' ''1'') (AstNumber ''2'' ''2'')))"
    by (simp add: operator_def num_def Number_def TermString_def exampleOpa_def
        plainLib_def exampleLib_def)
  have b: "IsBooleanNode exampleLib (AstBoolean True)"
    "\<not> IsBooleanNode exampleLib (AstNumber ''1'' ''1'')"
    "\<not> IsBooleanNode plainLib (Other (memberOf (AstNumber ''1'' ''1'') (AstNumber ''2'' ''2'')))"
    by (simp_all add: IsBooleanNode_def plainLib_def exampleLib_def)
  have s: "TermString exampleOpa (num ''1'') = ''1''"
    "ExprString exampleOpa memberExpr = ''internal.member_2.1.2''"
    by (simp_all add: TermString_def exampleOpa_def num_def memberExpr_def operator_def)
  have e: "Terms trueExpr = SingleTerm (Term (ast_Boolean True) None)"
    "Terms numExpr = SingleTerm (num ''1'')"
    "Terms memberExpr = CallTerms [operator [''internal'', ''member_2''], num ''1'', num ''2'']"
    by (simp_all add: trueExpr_def numExpr_def memberExpr_def)
  have "convertExpression exampleOpa exampleLib noConfig trueExpr = Ok (AstBoolean True)"
    using convertExpression_boolean_only
      [of trueExpr "Term (ast_Boolean True) None" exampleOpa exampleLib noConfig
          "AstBoolean True" "[]"]
      e(1) t(1) b(1)
    by blast
  moreover have "convertExpression exampleOpa exampleLib noConfig numExpr
      = Err (ConvertTermNotBoolean (TermString exampleOpa (num ''1'')))"
    using convertExpression_boolean_only
      [of numExpr "num ''1''" exampleOpa exampleLib noConfig "AstNumber ''1'' ''1''" "[]"]
      e(2) t(2) b(2)
    by blast
  moreover have "convertExpression exampleOpa plainLib noConfig memberExpr
      = Err (CallNotBoolean (ExprString exampleOpa memberExpr))"
    using convertExpression_boolean_only
      [of memberExpr "num ''1''" exampleOpa plainLib noConfig
          "Other (memberOf (AstNumber ''1'' ''1'') (AstNumber ''2'' ''2''))"
          "[operator [''internal'', ''member_2''], num ''1'', num ''2'']"]
      e(3) c b(3)
    by blast
  ultimately show ?thesis by (simp only: s)
qed

section \<open>Rendering an equality\<close>










lemma SQLString_equality:
  "SQLString lib (equality l r n) cfg =
     (case attempt lib l cfg n r of
        (Some v, c1) \<Rightarrow> (v, c1)
      | (None, c1) \<Rightarrow>
          (case attempt lib r c1 n l of
             (Some v, c2) \<Rightarrow> (v, c2)
           | (None, c2) \<Rightarrow>
               (''EqualityError'',
                AddError c2 (UnsupportedEquality (typeOf lib l) (equalsOp n) (typeOf lib r)))))"
  by (simp add: attempt_def split: prod.splits sum.splits)

lemma attempt_Some:
  "attempt lib x cfg n y = (Some v, c)
    \<longleftrightarrow> SupportsEquality lib x \<and> EqualsSQLString lib x cfg n y = (Inr v, c)"
  by (auto simp: attempt_def split: prod.splits sum.splits)

lemma EqualsSQLString_sources_fails:
  "inSources x \<Longrightarrow> EqualsSQLString lib x cfg n y = (Inl e, c) \<Longrightarrow> c = cfg"
  by (cases x) (auto split: if_splits prod.splits simp del: SQLString.simps)

lemma attempt_sources_None:
  "inSources x \<Longrightarrow> attempt lib x cfg n y = (None, c) \<Longrightarrow> c = cfg"
  by (auto simp: attempt_def split: if_splits prod.splits sum.splits
      dest: EqualsSQLString_sources_fails)






text \<open>
  C10. The left operand has precedence: when the left operand implements
  \<open>SupportsEquality\<close> and renders itself compared to the right one with a nil error,
  the equality node renders as exactly that text, with the context that rendering left,
  whether or not the right operand could render the comparison too.
\<close>

theorem equality_left_first:
  "SupportsEquality lib l \<Longrightarrow> EqualsSQLString lib l cfg n r = (Inr v, c)
    \<Longrightarrow> SQLString lib (Equality n l r) cfg = (v, c)"
  by (simp add: Equality_def)

theorem equality_left_first_witness:
  "SQLString exampleLib (Equality False one two) noErrors = (''1 = 2'', noErrors) \<and>
   EqualsSQLString exampleLib two noErrors False one = (Inr ''2 = 1'', noErrors)"
proof -
  have l: "SupportsEquality exampleLib one"
    "EqualsSQLString exampleLib one noErrors False two = (Inr ''1 = 2'', noErrors)"
    by (simp_all add: one_def two_def equalsOp_def)
  have r: "EqualsSQLString exampleLib two noErrors False one = (Inr ''2 = 1'', noErrors)"
    by (simp add: one_def two_def equalsOp_def)
  from equality_left_first [OF l] r show ?thesis by simp
qed

text \<open>
  C4. \<open>equality.SQLString\<close> always returns a text and a context. It first asks the
  left operand to render itself compared to the right one; only if that gives no text
  does it ask the right operand, the operands swapped, in the context the first attempt
  left; if neither gives a text, the text is \<open>EqualityError\<close> and the error that names
  the types of the two operands and the operator is appended to the context. When both
  operands are nodes whose comparison is in the sources at hand, a failed attempt leaves
  the context as it was, so that exactly this one error is appended.
\<close>

theorem equality_SQLString_attempts:
  "(attempt lib l cfg n r = (Some v, c1)
      \<longrightarrow> SQLString lib (Equality n l r) cfg = (v, c1)) \<and>
   (attempt lib l cfg n r = (None, c1) \<and> attempt lib r c1 n l = (Some v, c2)
      \<longrightarrow> SQLString lib (Equality n l r) cfg = (v, c2)) \<and>
   (attempt lib l cfg n r = (None, c1) \<and> attempt lib r c1 n l = (None, c2)
      \<longrightarrow> SQLString lib (Equality n l r) cfg
            = (''EqualityError'',
               c2\<lparr>errors := errors c2
                  @ [UnsupportedEquality (typeOf lib l) (equalsOp n) (typeOf lib r)]\<rparr>)) \<and>
   (inSources l \<and> inSources r \<and> fst (attempt lib l cfg n r) = None
      \<and> fst (attempt lib r cfg n l) = None
      \<longrightarrow> SQLString lib (Equality n l r) cfg
            = (''EqualityError'',
               cfg\<lparr>errors := errors cfg
                  @ [UnsupportedEquality (typeOf lib l) (equalsOp n) (typeOf lib r)]\<rparr>))"
proof (intro conjI impI)
  assume "attempt lib l cfg n r = (Some v, c1)"
  then show "SQLString lib (Equality n l r) cfg = (v, c1)"
    by (simp add: Equality_def SQLString_equality del: SQLString.simps)
next
  assume "attempt lib l cfg n r = (None, c1) \<and> attempt lib r c1 n l = (Some v, c2)"
  then show "SQLString lib (Equality n l r) cfg = (v, c2)"
    by (simp add: Equality_def SQLString_equality del: SQLString.simps)
next
  assume "attempt lib l cfg n r = (None, c1) \<and> attempt lib r c1 n l = (None, c2)"
  then show "SQLString lib (Equality n l r) cfg
            = (''EqualityError'',
               c2\<lparr>errors := errors c2
                  @ [UnsupportedEquality (typeOf lib l) (equalsOp n) (typeOf lib r)]\<rparr>)"
    by (simp add: Equality_def SQLString_equality AddError_def del: SQLString.simps)
next
  assume h: "inSources l \<and> inSources r \<and> fst (attempt lib l cfg n r) = None
      \<and> fst (attempt lib r cfg n l) = None"
  then have 1: "attempt lib l cfg n r = (None, cfg)"
    using attempt_sources_None [of l lib cfg n r "snd (attempt lib l cfg n r)"]
    by (cases "attempt lib l cfg n r") auto
  from h have 2: "attempt lib r cfg n l = (None, cfg)"
    using attempt_sources_None [of r lib cfg n l "snd (attempt lib r cfg n l)"]
    by (cases "attempt lib r cfg n l") auto
  from 1 2 show "SQLString lib (Equality n l r) cfg
            = (''EqualityError'',
               cfg\<lparr>errors := errors cfg
                  @ [UnsupportedEquality (typeOf lib l) (equalsOp n) (typeOf lib r)]\<rparr>)"
    by (simp add: Equality_def SQLString_equality AddError_def del: SQLString.simps)
qed

theorem equality_SQLString_attempts_witness:
  "SQLString exampleLib (Equality False one two) noErrors = (''1 = 2'', noErrors) \<and>
   SQLString exampleLib (Equality True (AstBoolean True) (equality one two False)) noErrors
     = (''(1 = 2) != true'', noErrors) \<and>
   SQLString exampleLib (Equality False (Other (AstString ''a'')) one) noErrors
     = (''EqualityError'',
        \<lparr> errors = [UnsupportedEquality (T_other ''sqlast.AstString'') ''='' T_AstNumber] \<rparr>) \<and>
   SQLString exampleLib (Equality False one (equality one two False)) noErrors
     = (''EqualityError'',
        \<lparr> errors = [UnsupportedEquality T_AstNumber ''='' T_equality] \<rparr>)"
proof -
  let ?e = "equality one two False"
  have a1: "attempt exampleLib one noErrors False two = (Some ''1 = 2'', noErrors)"
    by (simp add: attempt_def one_def two_def equalsOp_def)
  have a2: "attempt exampleLib (AstBoolean True) noErrors True ?e = (None, noErrors)"
    "attempt exampleLib ?e noErrors True (AstBoolean True)
      = (Some ''(1 = 2) != true'', noErrors)"
    by (simp_all add: attempt_def one_def two_def equalsOp_def exampleLib_def
        exampleUseAs_def addErrors_def noErrors_def)
  have a3: "attempt exampleLib (Other (AstString ''a'')) noErrors False one = (None, noErrors)"
    "attempt exampleLib one noErrors False (Other (AstString ''a'')) = (None, noErrors)"
    by (simp_all add: attempt_def one_def exampleLib_def exampleUseAs_def)
  have a4: "fst (attempt exampleLib one noErrors False ?e) = None"
    "fst (attempt exampleLib ?e noErrors False one) = None"
    "inSources one" "inSources ?e"
    by (simp_all add: attempt_def one_def two_def)
  have t: "typeName exampleLib (AstString ''a'') = ''sqlast.AstString''"
    "typeOf exampleLib one = T_AstNumber" "typeOf exampleLib ?e = T_equality"
    by (simp_all add: exampleLib_def one_def)
  show ?thesis
    using equality_SQLString_attempts
        [of exampleLib one noErrors False two "''1 = 2''" noErrors noErrors]
      equality_SQLString_attempts
        [of exampleLib "AstBoolean True" noErrors True ?e "''(1 = 2) != true''" noErrors
            noErrors]
      equality_SQLString_attempts
        [of exampleLib "Other (AstString ''a'')" noErrors False one "[]" noErrors noErrors]
      equality_SQLString_attempts
        [of exampleLib one noErrors False ?e "[]" noErrors noErrors]
      a1 a2 a3 a4
    by (simp add: t equalsOp_def noErrors_def)
qed






end
